theory Spec2Isabelle
  imports Main
begin

unbundle bit_operations_syntax

section \<open>Python values, exceptions and the binary operator protocol\<close>

text \<open>
  The library (\<^verbatim>\<open>lambdas/__init__.py\<close>) raises nothing itself: every failure is an
  exception of the Python run time. The ones that matter here:
  \<^item> \<open>TypeError_unsupported_operand\<close>: \<^verbatim>\<open>TypeError: unsupported operand type(s) for &\<close>
    (or \<^verbatim>\<open>|\<close>), raised by a binary operator when both operands decline;
  \<^item> \<open>TypeError_argument_count\<close>: the \<^verbatim>\<open>TypeError\<close> of a call whose number of positional
    arguments does not fit the signature of \<^verbatim>\<open>__call__\<close>;
  \<^item> \<open>ValueError_not_enough_values\<close>: \<^verbatim>\<open>ValueError: not enough values to unpack\<close>, raised
    by \<^verbatim>\<open>first_operation, *rest_of_the_operations = self._operations\<close> on an empty list;
  \<^item> \<open>ZeroDivisionError\<close>, and \<open>OtherException\<close> for whatever else an operand's own method
    raises;
  \<^item> \<open>Unmodelled\<close> is no exception of Python: the concrete arithmetic \<open>py_arith\<close> below
    answers it where CPython would round a float, which \<open>py_arith\<close> does not model.
\<close>

datatype py_error =
    TypeError_unsupported_operand
  | TypeError_argument_count
  | ValueError_not_enough_values
  | ZeroDivisionError
  | OtherException string
  | Unmodelled

text \<open>
  The values: integers (unbounded), strings, the singleton \<^verbatim>\<open>NotImplemented\<close>, objects of
  user-defined classes (named by a number; what they do is given by the environment below),
  and the expressions of the library itself, which are ordinary Python objects and can be
  operands and inputs like any other. An \<open>operation\<close> is one of the four subclasses of
  \<^verbatim>\<open>_Operation\<close> with its \<^verbatim>\<open>operand\<close>; an \<open>expr\<close> is the placeholder \<^verbatim>\<open>_Callable()\<close> or a
  \<^verbatim>\<open>_Chain(previous, operation)\<close>.
\<close>

datatype pyval =
    VInt int
  | VStr string
  | VObj nat
  | VNotImplemented
  | VExpr expr
and operation =
    SomethingAnd pyval
  | AndSomething pyval
  | SomethingOr pyval
  | OrSomething pyval
and expr =
    Callable
  | Chain expr operation

type_synonym result = "py_error + pyval"

type_synonym pymethod = "pyval \<Rightarrow> result"

datatype dunder = dunder_and | dunder_rand | dunder_or | dunder_ror

text \<open>
  The user-defined classes are a parameter. For the object \<open>n\<close>, \<open>obj_type env n\<close> names
  its class, \<open>obj_method env n d\<close> is the method \<open>d\<close> of its class bound to the object
  (\<open>None\<close> when the class defines none), \<open>obj_repr env n\<close> is its \<^verbatim>\<open>repr\<close>.
  \<open>subclass_override env c' c d\<close> says that class \<open>c'\<close> is a proper subclass of class \<open>c\<close>
  and provides a different implementation of the reflected method \<open>d\<close>. \<open>str_repr\<close> is
  Python's \<^verbatim>\<open>repr\<close> of a string (its choice of quotes and its escapes), which the library
  only embeds.
\<close>

record pyenv =
  obj_type :: "nat \<Rightarrow> nat"
  obj_method :: "nat \<Rightarrow> dunder \<Rightarrow> pymethod option"
  obj_repr :: "nat \<Rightarrow> string"
  subclass_override :: "nat \<Rightarrow> nat \<Rightarrow> dunder \<Rightarrow> bool"
  str_repr :: "string \<Rightarrow> string"

text \<open>The methods of \<^verbatim>\<open>int\<close>: bitwise on two integers, \<^verbatim>\<open>NotImplemented\<close> otherwise.\<close>

fun int_method :: "dunder \<Rightarrow> int \<Rightarrow> pymethod" where
  "int_method dunder_and i other =
     (case other of VInt j \<Rightarrow> Inr (VInt (i AND j)) | _ \<Rightarrow> Inr VNotImplemented)"
| "int_method dunder_rand i other =
     (case other of VInt j \<Rightarrow> Inr (VInt (j AND i)) | _ \<Rightarrow> Inr VNotImplemented)"
| "int_method dunder_or i other =
     (case other of VInt j \<Rightarrow> Inr (VInt (i OR j)) | _ \<Rightarrow> Inr VNotImplemented)"
| "int_method dunder_ror i other =
     (case other of VInt j \<Rightarrow> Inr (VInt (j OR i)) | _ \<Rightarrow> Inr VNotImplemented)"

subsection \<open>The combinators of \<^verbatim>\<open>_Expression\<close>\<close>

text \<open>
  \<^verbatim>\<open>_Expression.__and__\<close>, \<^verbatim>\<open>__rand__\<close>, \<^verbatim>\<open>__or__\<close> and \<^verbatim>\<open>__ror__\<close>. \<^verbatim>\<open>_Chain\<close> inherits them;
  \<^verbatim>\<open>_Callable\<close> overrides each one by a call of the inherited method.
\<close>

definition Expression_and :: "expr \<Rightarrow> pyval \<Rightarrow> expr" where
  "Expression_and self other = Chain self (AndSomething other)"

definition Expression_rand :: "expr \<Rightarrow> pyval \<Rightarrow> expr" where
  "Expression_rand self other = Chain self (SomethingAnd other)"

definition Expression_or :: "expr \<Rightarrow> pyval \<Rightarrow> expr" where
  "Expression_or self other = Chain self (OrSomething other)"

definition Expression_ror :: "expr \<Rightarrow> pyval \<Rightarrow> expr" where
  "Expression_ror self other = Chain self (SomethingOr other)"

fun Expression_method :: "dunder \<Rightarrow> expr \<Rightarrow> pymethod" where
  "Expression_method dunder_and self other = Inr (VExpr (Expression_and self other))"
| "Expression_method dunder_rand self other = Inr (VExpr (Expression_rand self other))"
| "Expression_method dunder_or self other = Inr (VExpr (Expression_or self other))"
| "Expression_method dunder_ror self other = Inr (VExpr (Expression_ror self other))"

subsection \<open>Python's protocol for a binary operator\<close>

text \<open>The method \<open>d\<close> of a value, looked up on its type; \<^verbatim>\<open>str\<close> has none of the four.\<close>

fun method_of :: "pyenv \<Rightarrow> pyval \<Rightarrow> dunder \<Rightarrow> pymethod option" where
  "method_of env (VInt i) d = Some (int_method d i)"
| "method_of env (VStr s) d = None"
| "method_of env (VObj n) d = obj_method env n d"
| "method_of env VNotImplemented d = None"
| "method_of env (VExpr e) d = Some (Expression_method d e)"

fun same_type :: "pyenv \<Rightarrow> pyval \<Rightarrow> pyval \<Rightarrow> bool" where
  "same_type env (VInt i) (VInt j) = True"
| "same_type env (VStr s) (VStr t) = True"
| "same_type env (VObj n) (VObj m) = (obj_type env n = obj_type env m)"
| "same_type env VNotImplemented VNotImplemented = True"
| "same_type env (VExpr Callable) (VExpr Callable) = True"
| "same_type env (VExpr (Chain p q)) (VExpr (Chain p' q')) = True"
| "same_type env a b = False"

text \<open>
  The right operand's reflected method is tried first when its type is a proper subclass
  of the left operand's type and overrides that method. Of the types here only
  user-defined classes can stand in that relation.
\<close>

fun prefers_reflected :: "pyenv \<Rightarrow> pyval \<Rightarrow> pyval \<Rightarrow> dunder \<Rightarrow> bool" where
  "prefers_reflected env (VObj n) (VObj m) d =
     subclass_override env (obj_type env m) (obj_type env n) d"
| "prefers_reflected env a b d = False"

text \<open>
  One attempt: call the method if there is one; an exception propagates, the result
  \<^verbatim>\<open>NotImplemented\<close> (or no method) passes on to the next attempt.
\<close>

fun attempt :: "pymethod option \<Rightarrow> pyval \<Rightarrow> result \<Rightarrow> result" where
  "attempt None x otherwise = otherwise"
| "attempt (Some m) x otherwise =
     (case m x of
        Inl err \<Rightarrow> Inl err
      | Inr VNotImplemented \<Rightarrow> otherwise
      | Inr r \<Rightarrow> Inr r)"

datatype bitop = BitAnd | BitOr

fun forward :: "bitop \<Rightarrow> dunder" where
  "forward BitAnd = dunder_and"
| "forward BitOr = dunder_or"

fun reflected :: "bitop \<Rightarrow> dunder" where
  "reflected BitAnd = dunder_rand"
| "reflected BitOr = dunder_ror"

text \<open>
  \<^verbatim>\<open>a & b\<close> and \<^verbatim>\<open>a | b\<close>: the left operand's method, then (for operands of different
  types) the right operand's reflected method, then \<^verbatim>\<open>TypeError\<close>.
\<close>

definition py_binop :: "pyenv \<Rightarrow> bitop \<Rightarrow> pyval \<Rightarrow> pyval \<Rightarrow> result" where
  "py_binop env op a b =
     (let lm = method_of env a (forward op);
          rm = (if same_type env a b then None else method_of env b (reflected op));
          unsupported = Inl TypeError_unsupported_operand
      in if prefers_reflected env a b (reflected op)
         then attempt rm a (attempt lm b unsupported)
         else attempt lm b (attempt rm a unsupported))"

definition py_and :: "pyenv \<Rightarrow> pyval \<Rightarrow> pyval \<Rightarrow> result" where
  "py_and env a b = py_binop env BitAnd a b"

definition py_or :: "pyenv \<Rightarrow> pyval \<Rightarrow> pyval \<Rightarrow> result" where
  "py_or env a b = py_binop env BitOr a b"

section \<open>Operations, chains and the placeholder\<close>

text \<open>\<^verbatim>\<open>precedence\<close> of the four operation classes, \<^verbatim>\<open>__precedence__\<close> of an expression.\<close>

fun precedence :: "operation \<Rightarrow> nat" where
  "precedence (SomethingAnd operand) = 8"
| "precedence (AndSomething operand) = 8"
| "precedence (SomethingOr operand) = 10"
| "precedence (OrSomething operand) = 10"

fun Expression_precedence :: "expr \<Rightarrow> nat" where
  "Expression_precedence Callable = 0"
| "Expression_precedence (Chain previous operation) = precedence operation"

text \<open>\<^verbatim>\<open>__call__\<close> of the four operation classes, of \<^verbatim>\<open>_Callable\<close> and of \<^verbatim>\<open>_Chain\<close>.\<close>

fun Operation_call :: "pyenv \<Rightarrow> operation \<Rightarrow> pyval \<Rightarrow> result" where
  "Operation_call env (SomethingAnd operand) arg = py_and env operand arg"
| "Operation_call env (AndSomething operand) arg = py_and env arg operand"
| "Operation_call env (SomethingOr operand) arg = py_or env operand arg"
| "Operation_call env (OrSomething operand) arg = py_or env arg operand"

fun Expression_call :: "pyenv \<Rightarrow> expr \<Rightarrow> pyval \<Rightarrow> result" where
  "Expression_call env Callable arg = Inr arg"
| "Expression_call env (Chain previous operation) arg =
     (case Expression_call env previous arg of
        Inl err \<Rightarrow> Inl err
      | Inr r \<Rightarrow> Operation_call env operation r)"

text \<open>
  A call with a list of positional arguments: \<^verbatim>\<open>__call__(self, __arg)\<close> takes exactly one.
\<close>

definition Expression_invoke :: "pyenv \<Rightarrow> expr \<Rightarrow> pyval list \<Rightarrow> result" where
  "Expression_invoke env self args =
     (case args of
        [arg] \<Rightarrow> Expression_call env self arg
      | _ \<Rightarrow> Inl TypeError_argument_count)"

subsection \<open>String forms\<close>

text \<open>\<^verbatim>\<open>repr\<close> of an integer: its decimal digits, with a minus sign when negative.\<close>

fun digits :: "nat \<Rightarrow> string" where
  "digits n =
     (if n < 10 then [''0123456789'' ! n]
      else digits (n div 10) @ [''0123456789'' ! (n mod 10)])"

declare digits.simps [simp del]

definition int_repr :: "int \<Rightarrow> string" where
  "int_repr i = (if i < 0 then ''-'' @ digits (nat (- i)) else digits (nat i))"

text \<open>
  \<^verbatim>\<open>repr\<close> of a value, \<^verbatim>\<open>as_string\<close> of the four operation classes, \<^verbatim>\<open>__repr__\<close> of
  \<^verbatim>\<open>_Callable\<close> and of \<^verbatim>\<open>_Chain\<close>.
\<close>

fun py_repr :: "pyenv \<Rightarrow> pyval \<Rightarrow> string"
  and as_string :: "pyenv \<Rightarrow> operation \<Rightarrow> string \<Rightarrow> string"
  and Expression_repr :: "pyenv \<Rightarrow> expr \<Rightarrow> string" where
  "py_repr env (VInt i) = int_repr i"
| "py_repr env (VStr s) = str_repr env s"
| "py_repr env (VObj n) = obj_repr env n"
| "py_repr env VNotImplemented = ''NotImplemented''"
| "py_repr env (VExpr e) = Expression_repr env e"
| "as_string env (SomethingAnd operand) inner = py_repr env operand @ '' & '' @ inner"
| "as_string env (AndSomething operand) inner = inner @ '' & '' @ py_repr env operand"
| "as_string env (SomethingOr operand) inner = py_repr env operand @ '' | '' @ inner"
| "as_string env (OrSomething operand) inner = inner @ '' | '' @ py_repr env operand"
| "Expression_repr env Callable = ''_''"
| "Expression_repr env (Chain previous operation) =
     as_string env operation
       (if Expression_precedence previous \<le> precedence operation
        then Expression_repr env previous
        else ''('' @ Expression_repr env previous @ '')'')"


subsection \<open>Python expressions that build an expression\<close>

text \<open>Sequencing: the next operator is applied to the value of the expression so far.\<close>

fun and_then :: "result \<Rightarrow> (pyval \<Rightarrow> result) \<Rightarrow> result" where
  "and_then (Inl err) f = Inl err"
| "and_then (Inr v) f = f v"


text \<open>
  The expressions of the test suite (\<^verbatim>\<open>tests/test_callable\<close>):
  \<^verbatim>\<open>(9 | _) & 6 & 7\<close>, \<^verbatim>\<open>9 | (_ & 6) & 7\<close> (where \<^verbatim>\<open>&\<close> binds tighter than \<^verbatim>\<open>|\<close>) and
  \<^verbatim>\<open>60 & _ & 5 & 7\<close>, each evaluated by Python's operator protocol from the left.
\<close>

definition test_operator_precedence_expr :: "pyenv \<Rightarrow> result" where
  "test_operator_precedence_expr env =
     and_then (and_then (py_or env (VInt 9) (VExpr Callable))
       (\<lambda>a. py_and env a (VInt 6)))
       (\<lambda>b. py_and env b (VInt 7))"

definition test_operator_precedence_expr2 :: "pyenv \<Rightarrow> result" where
  "test_operator_precedence_expr2 env =
     and_then (and_then (py_and env (VExpr Callable) (VInt 6))
       (\<lambda>a. py_and env a (VInt 7)))
       (\<lambda>b. py_or env (VInt 9) b)"

definition test_combinations_expr :: "pyenv \<Rightarrow> result" where
  "test_combinations_expr env =
     and_then (and_then (py_and env (VInt 60) (VExpr Callable))
       (\<lambda>a. py_and env a (VInt 5)))
       (\<lambda>b. py_and env b (VInt 7))"

text \<open>
  The classes of \<^verbatim>\<open>test_and.py\<close> and \<^verbatim>\<open>test_or.py\<close>. \<^verbatim>\<open>_ImplementsAnd.__and__\<close> is
  \<^verbatim>\<open>isinstance(other, str) and len(other) or NotImplemented\<close>: the length of a non-empty
  string, \<^verbatim>\<open>NotImplemented\<close> for the empty string and for anything else.
  \<^verbatim>\<open>_ImplementsRAnd.__rand__\<close> is \<^verbatim>\<open>isinstance(other, int) and str(other) or NotImplemented\<close>.
  \<^verbatim>\<open>_ImplementsOr.__or__\<close> and \<^verbatim>\<open>_ImplementsROr.__ror__\<close> have the same bodies.
\<close>

definition ImplementsAnd_and :: pymethod where
  "ImplementsAnd_and other =
     (case other of
        VStr s \<Rightarrow> (if length s = 0 then Inr VNotImplemented else Inr (VInt (int (length s))))
      | _ \<Rightarrow> Inr VNotImplemented)"

definition ImplementsRAnd_rand :: pymethod where
  "ImplementsRAnd_rand other =
     (case other of
        VInt i \<Rightarrow> Inr (VStr (int_repr i))
      | _ \<Rightarrow> Inr VNotImplemented)"

text \<open>
  \<open>plain_str_repr\<close> is Python's \<^verbatim>\<open>repr\<close> of a string on the strings that need no escape and
  hold no quote: the string between single quotes.
\<close>

definition plain_str_repr :: "string \<Rightarrow> string" where
  "plain_str_repr s = CHR 0x27 # s @ [CHR 0x27]"

text \<open>
  The objects of the tests: 0 is \<^verbatim>\<open>_ImplementsAnd()\<close>, 1 is \<^verbatim>\<open>_ImplementsRAnd()\<close>, 2 is
  \<^verbatim>\<open>_ImplementsOr()\<close>, 3 is \<^verbatim>\<open>_ImplementsROr()\<close>, each of a class of its own.
\<close>

definition test_env :: pyenv where
  "test_env =
     \<lparr> obj_type = (\<lambda>n. n),
       obj_method = (\<lambda>n d.
         if n = 0 \<and> d = dunder_and then Some ImplementsAnd_and
         else if n = 1 \<and> d = dunder_rand then Some ImplementsRAnd_rand
         else if n = 2 \<and> d = dunder_or then Some ImplementsAnd_and
         else if n = 3 \<and> d = dunder_ror then Some ImplementsRAnd_rand
         else None),
       obj_repr = (\<lambda>n. if n = 0 \<or> n = 2 then ''hello''
                        else if n = 1 \<or> n = 3 then ''howdy'' else ''<object>''),
       subclass_override = (\<lambda>c' c d. False),
       str_repr = plain_str_repr \<rparr>"



subsection \<open>The chain as the spec words it\<close>

text \<open>
  The spec's reading of a call: the recorded operations, listed from the root of the
  chain to its tip, are run from left to right on the input.
\<close>

fun spec_operations :: "expr \<Rightarrow> operation list" where
  "spec_operations Callable = []"
| "spec_operations (Chain previous operation) = spec_operations previous @ [operation]"

fun spec_replay :: "pyenv \<Rightarrow> operation list \<Rightarrow> pyval \<Rightarrow> result" where
  "spec_replay env [] x = Inr x"
| "spec_replay env (operation # rest) x =
     (case Operation_call env operation x of
        Inl err \<Rightarrow> Inl err
      | Inr r \<Rightarrow> spec_replay env rest r)"

section \<open>Arithmetic expressions\<close>

text \<open>
  The functions of the module \<^verbatim>\<open>operator\<close> that \<^verbatim>\<open>_MathExpression\<close> records. What they
  compute is Python's arithmetic, a parameter \<open>host\<close> here: \<open>host a x y\<close> is
  \<^verbatim>\<open>operator.a(x, y)\<close>, a number or an exception.
\<close>

datatype arith = Add | Sub | Mul | FloorDiv | TrueDiv | Mod | Pow

type_synonym 'n host = "arith \<Rightarrow> 'n \<Rightarrow> 'n \<Rightarrow> py_error + 'n"

text \<open>
  The callback handed to \<^verbatim>\<open>_add_operation\<close>: \<^verbatim>\<open>operator.a\<close> itself or \<^verbatim>\<open>_flip(operator.a)\<close>,
  where \<^verbatim>\<open>_flip(callback)\<close> is \<^verbatim>\<open>lambda first, second: callback(second, first)\<close>.
\<close>

datatype callback = Operator arith | Flip arith

fun callback_call :: "'n host \<Rightarrow> callback \<Rightarrow> 'n \<Rightarrow> 'n \<Rightarrow> py_error + 'n" where
  "callback_call host (Operator a) first second = host a first second"
| "callback_call host (Flip a) first second = host a second first"

text \<open>A recorded step is \<^verbatim>\<open>partial(operation, other)\<close>; calling it with \<open>x\<close> is \<^verbatim>\<open>operation(other, x)\<close>.\<close>

datatype 'n step = Partial callback 'n

fun partial_call :: "'n host \<Rightarrow> 'n step \<Rightarrow> 'n \<Rightarrow> py_error + 'n" where
  "partial_call host (Partial operation other) x = callback_call host operation other x"

text \<open>\<^verbatim>\<open>functools.reduce(function, iterable, initial)\<close>, an exception ending it.\<close>

fun reduce :: "('a \<Rightarrow> 'b \<Rightarrow> py_error + 'a) \<Rightarrow> 'b list \<Rightarrow> 'a \<Rightarrow> py_error + 'a" where
  "reduce f [] initial = Inr initial"
| "reduce f (x # xs) initial =
     (case f initial x of Inl err \<Rightarrow> Inl err | Inr r \<Rightarrow> reduce f xs r)"

text \<open>
  \<^verbatim>\<open>_MathExpression.__call__\<close> on the content of \<^verbatim>\<open>self._operations\<close>. The unpacking
  \<^verbatim>\<open>first_operation, *rest_of_the_operations = self._operations\<close> raises \<^verbatim>\<open>ValueError\<close> on the
  empty list.
\<close>

definition MathExpression_call :: "'n host \<Rightarrow> 'n step list \<Rightarrow> 'n \<Rightarrow> py_error + 'n" where
  "MathExpression_call host ops number =
     (case ops of
        [] \<Rightarrow> Inl ValueError_not_enough_values
      | first_operation # rest_of_the_operations \<Rightarrow>
          (case partial_call host first_operation number of
             Inl err \<Rightarrow> Inl err
           | Inr r \<Rightarrow>
               reduce (\<lambda>partial_result operation. partial_call host operation partial_result)
                 rest_of_the_operations r))"

subsection \<open>The store\<close>

text \<open>
  \<^verbatim>\<open>_MathExpression\<close> is mutable, so its instances live in a store. A list object has an
  address \<open>l < n_lists h\<close> and the content \<open>lists h l\<close>; an instance has an address
  \<open>e < n_instances h\<close>, and \<open>operations_attr h e\<close> is the address of the list its attribute
  \<^verbatim>\<open>_operations\<close> refers to.
\<close>

record 'n heap =
  lists :: "nat \<Rightarrow> 'n step list"
  n_lists :: nat
  operations_attr :: "nat \<Rightarrow> nat"
  n_instances :: nat

definition empty_heap :: "'n heap" where
  "empty_heap =
     \<lparr> lists = (\<lambda>l. []), n_lists = 0, operations_attr = (\<lambda>e. 0), n_instances = 0 \<rparr>"

definition MathExpression_operations :: "'n heap \<Rightarrow> nat \<Rightarrow> 'n step list" where
  "MathExpression_operations h self = lists h (operations_attr h self)"

text \<open>\<^verbatim>\<open>_MathExpression()\<close>: a new instance whose \<^verbatim>\<open>_operations\<close> is a new empty list.\<close>

definition MathExpression_init :: "'n heap \<Rightarrow> 'n heap \<times> nat" where
  "MathExpression_init h =
     (h\<lparr> lists := (lists h)(n_lists h := []),
         n_lists := Suc (n_lists h),
         operations_attr := (operations_attr h)(n_instances h := n_lists h),
         n_instances := Suc (n_instances h) \<rparr>,
      n_instances h)"

text \<open>\<^verbatim>\<open>_add_operation\<close>: \<^verbatim>\<open>self._operations.append(partial(operation, other)); return self\<close>.\<close>

definition add_operation :: "'n heap \<Rightarrow> nat \<Rightarrow> callback \<Rightarrow> 'n \<Rightarrow> 'n heap \<times> nat" where
  "add_operation h self operation other =
     (let l = operations_attr h self
      in (h\<lparr> lists := (lists h)(l := lists h l @ [Partial operation other]) \<rparr>, self))"

text \<open>
  The fourteen arithmetic methods of \<^verbatim>\<open>_MathExpression\<close>, each a call of
  \<^verbatim>\<open>_add_operation\<close> with the callback of the table \<open>dunder_operation\<close>.
\<close>

datatype arith_dunder =
    dunder_add | dunder_sub | dunder_mul | dunder_floordiv | dunder_truediv | dunder_mod
  | dunder_pow | dunder_radd | dunder_rsub | dunder_rmul | dunder_rfloordiv
  | dunder_rtruediv | dunder_rmod | dunder_rpow

fun dunder_operation :: "arith_dunder \<Rightarrow> callback" where
  "dunder_operation dunder_add = Flip Add"
| "dunder_operation dunder_sub = Flip Sub"
| "dunder_operation dunder_mul = Flip Mul"
| "dunder_operation dunder_floordiv = Flip FloorDiv"
| "dunder_operation dunder_truediv = Flip TrueDiv"
| "dunder_operation dunder_mod = Flip Mod"
| "dunder_operation dunder_pow = Flip Pow"
| "dunder_operation dunder_radd = Operator Add"
| "dunder_operation dunder_rsub = Operator Sub"
| "dunder_operation dunder_rmul = Operator Mul"
| "dunder_operation dunder_rfloordiv = Operator FloorDiv"
| "dunder_operation dunder_rtruediv = Operator TrueDiv"
| "dunder_operation dunder_rmod = Operator Mod"
| "dunder_operation dunder_rpow = Operator Pow"

definition MathExpression_dunder ::
  "'n heap \<Rightarrow> nat \<Rightarrow> arith_dunder \<Rightarrow> 'n \<Rightarrow> 'n heap \<times> nat" where
  "MathExpression_dunder h self d other = add_operation h self (dunder_operation d) other"

text \<open>
  The fourteen arithmetic methods of \<^verbatim>\<open>_Callable\<close>: \<^verbatim>\<open>_MathExpression() + other\<close> and its
  like, \<^verbatim>\<open>other + _MathExpression()\<close> and its like for the reflected ones. For a number
  \<^verbatim>\<open>other\<close> (the annotated type \<^verbatim>\<open>_Number\<close>) the number's own method declines a
  \<^verbatim>\<open>_MathExpression\<close>, so the second form is the reflected method of the new instance.
\<close>

definition Callable_dunder :: "'n heap \<Rightarrow> arith_dunder \<Rightarrow> 'n \<Rightarrow> 'n heap \<times> nat" where
  "Callable_dunder h d other =
     (case MathExpression_init h of (h', fresh) \<Rightarrow> MathExpression_dunder h' fresh d other)"

text \<open>A call with a list of positional arguments: \<^verbatim>\<open>__call__(self, number)\<close> takes one.\<close>

definition MathExpression_invoke ::
  "'n host \<Rightarrow> 'n heap \<Rightarrow> nat \<Rightarrow> 'n list \<Rightarrow> py_error + 'n" where
  "MathExpression_invoke host h self args =
     (case args of
        [number] \<Rightarrow> MathExpression_call host (MathExpression_operations h self) number
      | _ \<Rightarrow> Inl TypeError_argument_count)"

text \<open>
  The stores that the public surface produces: starting from nothing, an arithmetic
  operator is applied to the placeholder or to an arithmetic expression made before.
\<close>

inductive reachable :: "'n heap \<Rightarrow> bool" where
  reachable_empty: "reachable empty_heap"
| reachable_start: "reachable h \<Longrightarrow> reachable (fst (Callable_dunder h d other))"
| reachable_extend:
    "reachable h \<Longrightarrow> self < n_instances h \<Longrightarrow>
     reachable (fst (MathExpression_dunder h self d other))"

text \<open>
  What \<open>reachable\<close> stores have in common: every instance refers to an allocated, non-empty
  list, and no two instances to the same one.
\<close>

definition heap_inv :: "'n heap \<Rightarrow> bool" where
  "heap_inv h \<longleftrightarrow>
     (\<forall>e < n_instances h.
        operations_attr h e < n_lists h \<and> lists h (operations_attr h e) \<noteq> [])
     \<and> inj_on (operations_attr h) {..< n_instances h}"

subsection \<open>A concrete arithmetic\<close>

text \<open>
  Python's arithmetic on \<^verbatim>\<open>int\<close> and on the floats with an integer value: \<open>NFloat k\<close> is the
  float equal to \<open>k\<close> (\<^verbatim>\<open>450000.0\<close> is \<open>NFloat 450000\<close>; \<open>NFloat 0\<close> is either zero), for
  \<open>\<bar>k\<bar> \<le> 2 ^ 53\<close>, where every integer is a float. Integer arithmetic is exact. A float result is given where the exact
  result is such a float, which is then CPython's result as well; where CPython would round
  or the result has a fractional part, the answer is \<open>Unmodelled\<close>.
\<close>

datatype number = NInt int | NFloat int

definition as_float :: "int \<Rightarrow> py_error + number" where
  "as_float k = (if \<bar>k\<bar> \<le> 2 ^ 53 then Inr (NFloat k) else Inl Unmodelled)"

fun int_arith :: "arith \<Rightarrow> int \<Rightarrow> int \<Rightarrow> py_error + number" where
  "int_arith Add x y = Inr (NInt (x + y))"
| "int_arith Sub x y = Inr (NInt (x - y))"
| "int_arith Mul x y = Inr (NInt (x * y))"
| "int_arith FloorDiv x y = (if y = 0 then Inl ZeroDivisionError else Inr (NInt (x div y)))"
| "int_arith Mod x y = (if y = 0 then Inl ZeroDivisionError else Inr (NInt (x mod y)))"
| "int_arith TrueDiv x y =
     (if y = 0 then Inl ZeroDivisionError
      else if y dvd x then as_float (x div y)
      else Inl Unmodelled)"
| "int_arith Pow x y =
     (if 0 \<le> y then Inr (NInt (x ^ nat y))
      else if x = 0 then Inl ZeroDivisionError
      else Inl Unmodelled)"

fun float_arith :: "arith \<Rightarrow> int \<Rightarrow> int \<Rightarrow> py_error + number" where
  "float_arith Add x y = as_float (x + y)"
| "float_arith Sub x y = as_float (x - y)"
| "float_arith Mul x y = as_float (x * y)"
| "float_arith TrueDiv x y =
     (if y = 0 then Inl ZeroDivisionError
      else if y dvd x then as_float (x div y)
      else Inl Unmodelled)"
| "float_arith FloorDiv x y = (if y = 0 then Inl ZeroDivisionError else Inl Unmodelled)"
| "float_arith Mod x y = (if y = 0 then Inl ZeroDivisionError else Inl Unmodelled)"
| "float_arith Pow x y = Inl Unmodelled"

fun py_arith :: "number host" where
  "py_arith a (NInt x) (NInt y) = int_arith a x y"
| "py_arith a (NInt x) (NFloat y) =
     (if \<bar>x\<bar> \<le> 2 ^ 53 then float_arith a x y else Inl Unmodelled)"
| "py_arith a (NFloat x) (NInt y) =
     (if \<bar>y\<bar> \<le> 2 ^ 53 then float_arith a x y else Inl Unmodelled)"
| "py_arith a (NFloat x) (NFloat y) = float_arith a x y"

text \<open>
  \<^verbatim>\<open>test_complex_expression\<close>: \<^verbatim>\<open>complex_expression = ((10 ** 5) / (_ % 3) * 9)\<close>, called
  with one number. \<open>lit\<close> is the number an integer literal denotes.
\<close>

definition test_complex_expression ::
  "'n host \<Rightarrow> (int \<Rightarrow> 'n) \<Rightarrow> 'n heap \<Rightarrow> 'n \<Rightarrow> py_error + 'n" where
  "test_complex_expression host lit h number =
     (case Callable_dunder h dunder_mod (lit 3) of (h1, e1) \<Rightarrow>
      case MathExpression_dunder h1 e1 dunder_rtruediv (lit (10 ^ 5)) of (h2, e2) \<Rightarrow>
      case MathExpression_dunder h2 e2 dunder_mul (lit 9) of (h3, complex_expression) \<Rightarrow>
        MathExpression_invoke host h3 complex_expression [number])"

text \<open>
  Two arithmetic expressions started from the placeholder in a new program:
  \<^verbatim>\<open>a = _ + 2\<close> (the instance 0) and then \<^verbatim>\<open>b = 3 - _\<close> (the instance 1).
\<close>

definition two_expressions :: "number heap" where
  "two_expressions =
     fst (Callable_dunder (fst (Callable_dunder empty_heap dunder_add (NInt 2)))
       dunder_rsub (NInt 3))"

section \<open>Facts about the operator protocol\<close>










lemma replay_append:
  "spec_replay env (xs @ ys) x =
     (case spec_replay env xs x of Inl err \<Rightarrow> Inl err | Inr r \<Rightarrow> spec_replay env ys r)"
  by (induction xs arbitrary: x) (auto split: sum.splits)

lemma call_is_replay: "Expression_call env e x = spec_replay env (spec_operations e) x"
  by (induction env e x rule: Expression_call.induct)
    (auto simp: replay_append split: sum.splits)

lemmas protocol_defs = py_and_def py_or_def py_binop_def Let_def
  Expression_and_def Expression_rand_def Expression_or_def Expression_ror_def


lemma built_operator_precedence:
  "test_operator_precedence_expr env =
     Inr (VExpr (Chain (Chain (Chain Callable (SomethingOr (VInt 9))) (AndSomething (VInt 6)))
       (AndSomething (VInt 7))))"
  by (simp add: test_operator_precedence_expr_def protocol_defs)

lemma built_operator_precedence2:
  "test_operator_precedence_expr2 env =
     Inr (VExpr (Chain (Chain (Chain Callable (AndSomething (VInt 6))) (AndSomething (VInt 7)))
       (SomethingOr (VInt 9))))"
  by (simp add: test_operator_precedence_expr2_def protocol_defs)

lemma built_combinations:
  "test_combinations_expr env =
     Inr (VExpr (Chain (Chain (Chain Callable (SomethingAnd (VInt 60))) (AndSomething (VInt 5)))
       (AndSomething (VInt 7))))"
  by (simp add: test_combinations_expr_def protocol_defs)

section \<open>The placeholder\<close>

text \<open>
  C5. The placeholder is the identity expression: called with any value it returns that
  value unchanged, also when called through a list of one positional argument; its string
  form is the single token \<^verbatim>\<open>_\<close>; its precedence is 0.
\<close>

theorem placeholder_identity:
  "Expression_call env Callable v = Inr v
     \<and> Expression_invoke env Callable [v] = Inr v
     \<and> Expression_repr env Callable = ''_''
     \<and> Expression_precedence Callable = 0"
  by (simp add: Expression_invoke_def)

section \<open>Chains\<close>

text \<open>
  C1. The string form of a chain follows the precedence rule: the string form of the
  previous expression is embedded as it is when its precedence is at most the
  precedence of the trailing operation, and between parentheses otherwise. The
  expression \<^verbatim>\<open>(9 | _) & 6 & 7\<close> builds a chain whose string form is
  \<^verbatim>\<open>(9 | _) & 6 & 7\<close>, and \<^verbatim>\<open>9 | (_ & 6) & 7\<close> one whose string form is \<^verbatim>\<open>9 | _ & 6 & 7\<close>.
\<close>

theorem chain_repr_precedence:
  "(Expression_precedence previous \<le> precedence oper \<longrightarrow>
      Expression_repr env (Chain previous oper)
        = as_string env oper (Expression_repr env previous))
   \<and> (\<not> Expression_precedence previous \<le> precedence oper \<longrightarrow>
      Expression_repr env (Chain previous oper)
        = as_string env oper (''('' @ Expression_repr env previous @ '')''))
   \<and> as_string env (SomethingAnd operand) inner = py_repr env operand @ '' & '' @ inner
   \<and> as_string env (AndSomething operand) inner = inner @ '' & '' @ py_repr env operand
   \<and> as_string env (SomethingOr operand) inner = py_repr env operand @ '' | '' @ inner
   \<and> as_string env (OrSomething operand) inner = inner @ '' | '' @ py_repr env operand
   \<and> Expression_precedence Callable = 0
   \<and> Expression_precedence (Chain previous oper) = precedence oper
   \<and> test_operator_precedence_expr env =
       Inr (VExpr (Chain (Chain (Chain Callable (SomethingOr (VInt 9)))
         (AndSomething (VInt 6))) (AndSomething (VInt 7))))
   \<and> Expression_repr env (Chain (Chain (Chain Callable (SomethingOr (VInt 9)))
         (AndSomething (VInt 6))) (AndSomething (VInt 7))) = ''(9 | _) & 6 & 7''
   \<and> test_operator_precedence_expr2 env =
       Inr (VExpr (Chain (Chain (Chain Callable (AndSomething (VInt 6)))
         (AndSomething (VInt 7))) (SomethingOr (VInt 9))))
   \<and> Expression_repr env (Chain (Chain (Chain Callable (AndSomething (VInt 6)))
         (AndSomething (VInt 7))) (SomethingOr (VInt 9))) = ''9 | _ & 6 & 7''"
  by (simp add: built_operator_precedence built_operator_precedence2 int_repr_def digits.simps)

theorem chain_repr_precedence_witness:
  "Expression_precedence Callable \<le> precedence (AndSomething (VInt 6))
   \<and> Expression_repr test_env (Chain Callable (AndSomething (VInt 6))) = ''_ & 6''
   \<and> \<not> Expression_precedence (Chain Callable (SomethingOr (VInt 9)))
          \<le> precedence (AndSomething (VInt 6))
   \<and> Expression_repr test_env (Chain (Chain Callable (SomethingOr (VInt 9)))
         (AndSomething (VInt 6))) = ''(9 | _) & 6''"
  using chain_repr_precedence [of Callable "AndSomething (VInt 6)" test_env]
    chain_repr_precedence [of "Chain Callable (SomethingOr (VInt 9))" "AndSomething (VInt 6)"
      test_env]
  by (simp add: int_repr_def digits.simps)

text \<open>
  C3. Calling a chain is composition in construction order: the previous expression is
  applied to the input, then the trailing operation to its result (an exception of the
  previous expression ends the call); so the recorded operations run from the root to the
  tip, left to right. The expression \<^verbatim>\<open>60 & _ & 5 & 7\<close> builds a chain that returns 4 on
  the input 7 and whose string form is \<^verbatim>\<open>60 & _ & 5 & 7\<close>.
\<close>

theorem chain_call_composition:
  "Expression_call env (Chain previous oper) x =
     (case Expression_call env previous x of
        Inl err \<Rightarrow> Inl err
      | Inr r \<Rightarrow> Operation_call env oper r)
   \<and> Expression_call env e x = spec_replay env (spec_operations e) x
   \<and> test_combinations_expr env =
       Inr (VExpr (Chain (Chain (Chain Callable (SomethingAnd (VInt 60)))
         (AndSomething (VInt 5))) (AndSomething (VInt 7))))
   \<and> Expression_call env (Chain (Chain (Chain Callable (SomethingAnd (VInt 60)))
         (AndSomething (VInt 5))) (AndSomething (VInt 7))) (VInt 7) = Inr (VInt 4)
   \<and> Expression_repr env (Chain (Chain (Chain Callable (SomethingAnd (VInt 60)))
         (AndSomething (VInt 5))) (AndSomething (VInt 7))) = ''60 & _ & 5 & 7''"
proof -
  have "Expression_call env e x = spec_replay env (spec_operations e) x"
    by (rule call_is_replay)
  moreover have "Expression_call env (Chain (Chain (Chain Callable (SomethingAnd (VInt 60)))
         (AndSomething (VInt 5))) (AndSomething (VInt 7))) (VInt 7) = Inr (VInt 4)"
    by (simp add: protocol_defs)
  ultimately show ?thesis
    by (simp add: built_combinations int_repr_def digits.simps)
qed

section \<open>Dual dispatch\<close>




section \<open>Deferred failures\<close>




section \<open>Facts about arithmetic expressions\<close>

lemmas heap_defs = Callable_dunder_def MathExpression_init_def MathExpression_dunder_def
  add_operation_def MathExpression_operations_def Let_def

lemma call_single: "MathExpression_call host [s] v = partial_call host s v"
  by (simp add: MathExpression_call_def split: sum.splits)

lemma reduce_snoc:
  "reduce f (xs @ [x]) a = (case reduce f xs a of Inl err \<Rightarrow> Inl err | Inr r \<Rightarrow> f r x)"
  by (induction xs arbitrary: a) (auto split: sum.splits)

lemma call_snoc:
  "ops \<noteq> [] \<Longrightarrow> MathExpression_call host (ops @ [s]) v =
     (case MathExpression_call host ops v of
        Inl err \<Rightarrow> Inl err
      | Inr r \<Rightarrow> partial_call host s r)"
  by (cases ops) (auto simp: MathExpression_call_def reduce_snoc split: sum.splits)

lemma complex_expression_steps:
  "test_complex_expression host lit h number =
     MathExpression_call host
       [Partial (Flip Mod) (lit 3), Partial (Operator TrueDiv) (lit (10 ^ 5)),
        Partial (Flip Mul) (lit 9)] number"
  by (simp add: test_complex_expression_def heap_defs MathExpression_invoke_def)

lemma heap_inv_empty: "heap_inv empty_heap"
  by (simp add: heap_inv_def empty_heap_def)

lemma heap_inv_extend: "heap_inv h \<Longrightarrow> heap_inv (fst (MathExpression_dunder h self d other))"
  by (auto simp: heap_inv_def MathExpression_dunder_def add_operation_def Let_def)

lemma heap_inv_start: "heap_inv h \<Longrightarrow> heap_inv (fst (Callable_dunder h d other))"
  by (auto simp: heap_inv_def Callable_dunder_def MathExpression_init_def
      MathExpression_dunder_def add_operation_def Let_def less_Suc_eq inj_on_def)

lemma reachable_inv: "reachable h \<Longrightarrow> heap_inv h"
  by (induction rule: reachable.induct)
    (auto intro: heap_inv_empty heap_inv_start heap_inv_extend)

lemma reachable_nonempty:
  "reachable h \<Longrightarrow> self < n_instances h \<Longrightarrow> MathExpression_operations h self \<noteq> []"
  using reachable_inv [of h] by (simp add: heap_inv_def MathExpression_operations_def)

lemma start_frame:
  assumes "reachable h" and "e < n_instances h"
  shows "operations_attr (fst (Callable_dunder h d other)) e = operations_attr h e"
    and "MathExpression_operations (fst (Callable_dunder h d other)) e
           = MathExpression_operations h e"
  using reachable_inv [OF assms(1)] assms(2) by (auto simp: heap_inv_def heap_defs)

lemma no_sharing:
  assumes "reachable h" and "e1 < n_instances h" and "e2 < n_instances h" and "e1 \<noteq> e2"
  shows "operations_attr h e1 \<noteq> operations_attr h e2"
  using reachable_inv [OF assms(1)] assms(2-) by (auto simp: heap_inv_def inj_on_def)

lemma extend_frame:
  "operations_attr h e1 \<noteq> operations_attr h e2 \<Longrightarrow>
   MathExpression_operations (fst (MathExpression_dunder h e1 d other)) e2
     = MathExpression_operations h e2"
  by (simp add: heap_defs)

lemma reachable_two_expressions: "reachable two_expressions"
  unfolding two_expressions_def by (intro reachable.intros)

lemma two_expressions_facts:
  "n_instances two_expressions = 2"
  "MathExpression_operations two_expressions 0 = [Partial (Flip Add) (NInt 2)]"
  "MathExpression_operations two_expressions (Suc 0) = [Partial (Operator Sub) (NInt 3)]"
  "operations_attr two_expressions 0 = 0"
  "operations_attr two_expressions (Suc 0) = Suc 0"
  by (simp_all add: two_expressions_def heap_defs empty_heap_def)

section \<open>Arithmetic expressions: the claims\<close>

text \<open>
  C4. Calling an arithmetic expression is a fold from the left: the only step of a
  one-step expression is applied to the input, and the last step of a longer one to the
  result of the steps before it (an exception ends the call). A step applies its fixed
  operand on the side recorded for it: to the right of the running value for the methods
  \<^verbatim>\<open>__add__\<close> to \<^verbatim>\<open>__pow__\<close>, to its left for \<^verbatim>\<open>__radd__\<close> to \<^verbatim>\<open>__rpow__\<close>. The expression
  \<^verbatim>\<open>((10 ** 5) / (_ % 3) * 9)\<close> called with a number is \<^verbatim>\<open>100000 / (number % 3) * 9\<close> in the
  host's arithmetic, and returns the float 450000.0 on 5.
\<close>

theorem arithmetic_call_fold:
  "MathExpression_call host [s] v = partial_call host s v
   \<and> (ops \<noteq> [] \<longrightarrow>
        MathExpression_call host (ops @ [s]) v =
          (case MathExpression_call host ops v of
             Inl err \<Rightarrow> Inl err
           | Inr r \<Rightarrow> partial_call host s r))
   \<and> partial_call host (Partial (dunder_operation dunder_add) c) x = host Add x c
   \<and> partial_call host (Partial (dunder_operation dunder_sub) c) x = host Sub x c
   \<and> partial_call host (Partial (dunder_operation dunder_mul) c) x = host Mul x c
   \<and> partial_call host (Partial (dunder_operation dunder_floordiv) c) x = host FloorDiv x c
   \<and> partial_call host (Partial (dunder_operation dunder_truediv) c) x = host TrueDiv x c
   \<and> partial_call host (Partial (dunder_operation dunder_mod) c) x = host Mod x c
   \<and> partial_call host (Partial (dunder_operation dunder_pow) c) x = host Pow x c
   \<and> partial_call host (Partial (dunder_operation dunder_radd) c) x = host Add c x
   \<and> partial_call host (Partial (dunder_operation dunder_rsub) c) x = host Sub c x
   \<and> partial_call host (Partial (dunder_operation dunder_rmul) c) x = host Mul c x
   \<and> partial_call host (Partial (dunder_operation dunder_rfloordiv) c) x = host FloorDiv c x
   \<and> partial_call host (Partial (dunder_operation dunder_rtruediv) c) x = host TrueDiv c x
   \<and> partial_call host (Partial (dunder_operation dunder_rmod) c) x = host Mod c x
   \<and> partial_call host (Partial (dunder_operation dunder_rpow) c) x = host Pow c x
   \<and> test_complex_expression host lit h number =
       (case host Mod number (lit 3) of
          Inl err \<Rightarrow> Inl err
        | Inr r \<Rightarrow>
            (case host TrueDiv (lit (10 ^ 5)) r of
               Inl err \<Rightarrow> Inl err
             | Inr q \<Rightarrow> host Mul q (lit 9)))
   \<and> test_complex_expression py_arith NInt g (NInt 5) = Inr (NFloat 450000)"
proof -
  have general: "test_complex_expression host lit h number =
       (case host Mod number (lit 3) of
          Inl err \<Rightarrow> Inl err
        | Inr r \<Rightarrow>
            (case host TrueDiv (lit (10 ^ 5)) r of
               Inl err \<Rightarrow> Inl err
             | Inr q \<Rightarrow> host Mul q (lit 9)))" for host :: "'b host" and lit h number
    by (simp add: complex_expression_steps MathExpression_call_def split: sum.splits)
  have concrete: "test_complex_expression py_arith NInt g (NInt 5) = Inr (NFloat 450000)"
    by (simp add: general as_float_def)
  show ?thesis
    using call_snoc [of ops host s v] general concrete by (simp add: call_single)
qed

theorem arithmetic_call_fold_witness:
  "[Partial (Flip Mod) (NInt 3), Partial (Operator TrueDiv) (NInt 100000)] \<noteq> []
   \<and> MathExpression_call py_arith
       ([Partial (Flip Mod) (NInt 3), Partial (Operator TrueDiv) (NInt 100000)]
          @ [Partial (Flip Mul) (NInt 9)]) (NInt 5)
       = Inr (NFloat 450000)
   \<and> MathExpression_call py_arith
       [Partial (Flip Mod) (NInt 3), Partial (Operator TrueDiv) (NInt 100000)] (NInt 5)
       = Inr (NFloat 50000)"
proof -
  have first: "MathExpression_call py_arith
       [Partial (Flip Mod) (NInt 3), Partial (Operator TrueDiv) (NInt 100000)] (NInt 5)
       = Inr (NFloat 50000)"
    by (simp add: MathExpression_call_def as_float_def)
  show ?thesis
    using arithmetic_call_fold [of py_arith "Partial (Flip Mul) (NInt 9)" "NInt 5"
        "[Partial (Flip Mod) (NInt 3), Partial (Operator TrueDiv) (NInt 100000)]"]
      first
    by (simp add: as_float_def)
qed

text \<open>
  C7. Calling an arithmetic expression with no recorded step raises the \<^verbatim>\<open>ValueError\<close> of
  the unpacking (the spec's EmptyExpressionError); and in every store that the placeholder
  surface produces, every arithmetic expression has at least one recorded step.
\<close>

theorem empty_expression_error:
  "MathExpression_call host [] v = Inl ValueError_not_enough_values
   \<and> (MathExpression_operations h self = [] \<longrightarrow>
        MathExpression_invoke host h self [v] = Inl ValueError_not_enough_values)
   \<and> (reachable h \<and> self < n_instances h \<longrightarrow> MathExpression_operations h self \<noteq> [])"
  using reachable_nonempty [of h self]
  by (simp add: MathExpression_call_def MathExpression_invoke_def)

theorem empty_expression_error_witness:
  "MathExpression_operations (fst (MathExpression_init (empty_heap :: number heap))) 0 = []
   \<and> MathExpression_invoke py_arith (fst (MathExpression_init empty_heap)) 0 [NInt 5]
       = Inl ValueError_not_enough_values
   \<and> reachable two_expressions
   \<and> Suc 0 < n_instances two_expressions
   \<and> MathExpression_operations two_expressions (Suc 0) \<noteq> []"
proof -
  have empty:
    "MathExpression_operations (fst (MathExpression_init (empty_heap :: number heap))) 0 = []"
    by (simp add: heap_defs empty_heap_def)
  show ?thesis
    using empty reachable_two_expressions
      empty_expression_error [of py_arith "NInt 5" "fst (MathExpression_init empty_heap)" 0]
      empty_expression_error [of py_arith "NInt 5" two_expressions "Suc 0"]
    by (simp add: two_expressions_facts)
qed

text \<open>
  C8. An arithmetic operator applied to an arithmetic expression mutates it in place: the
  result is the same instance, still referring to the same list; that list is the list
  before with exactly one step appended, so no step recorded before has changed; and no
  other list of the store has changed.
\<close>

theorem arithmetic_combinators_in_place:
  "snd (MathExpression_dunder h self d other) = self
   \<and> operations_attr (fst (MathExpression_dunder h self d other)) = operations_attr h
   \<and> n_instances (fst (MathExpression_dunder h self d other)) = n_instances h
   \<and> n_lists (fst (MathExpression_dunder h self d other)) = n_lists h
   \<and> MathExpression_operations (fst (MathExpression_dunder h self d other)) self
       = MathExpression_operations h self @ [Partial (dunder_operation d) other]
   \<and> take (length (MathExpression_operations h self))
         (MathExpression_operations (fst (MathExpression_dunder h self d other)) self)
       = MathExpression_operations h self
   \<and> lists (fst (MathExpression_dunder h self d other))
       = (lists h)(operations_attr h self :=
           MathExpression_operations h self @ [Partial (dunder_operation d) other])"
  by (simp add: heap_defs)

text \<open>
  C9. Arity is enforced: a call of the placeholder, of a chain or of an arithmetic
  expression with a number of positional arguments other than one raises \<^verbatim>\<open>TypeError\<close>
  (the spec's ArityError); a call with exactly one argument is the call proper.
\<close>

theorem arity_enforced:
  "(length args \<noteq> 1 \<longrightarrow> Expression_invoke env e args = Inl TypeError_argument_count)
   \<and> (length numbers \<noteq> 1 \<longrightarrow>
        MathExpression_invoke host h self numbers = Inl TypeError_argument_count)
   \<and> Expression_invoke env e [x] = Expression_call env e x
   \<and> MathExpression_invoke host h self [v]
       = MathExpression_call host (MathExpression_operations h self) v"
  by (auto simp: Expression_invoke_def MathExpression_invoke_def split: list.splits)

theorem arity_enforced_witness:
  "length ([] :: pyval list) \<noteq> 1
   \<and> Expression_invoke test_env Callable [] = Inl TypeError_argument_count
   \<and> length [VInt 1, VInt 2] \<noteq> 1
   \<and> Expression_invoke test_env (Chain Callable (SomethingAnd (VInt 60))) [VInt 1, VInt 2]
       = Inl TypeError_argument_count
   \<and> length ([] :: number list) \<noteq> 1
   \<and> MathExpression_invoke py_arith two_expressions 0 [] = Inl TypeError_argument_count
   \<and> length [NInt 1, NInt 2] \<noteq> 1
   \<and> MathExpression_invoke py_arith two_expressions 0 [NInt 1, NInt 2]
       = Inl TypeError_argument_count"
  using arity_enforced [of "[]" test_env Callable "[]" py_arith two_expressions 0]
    arity_enforced [of "[VInt 1, VInt 2]" test_env "Chain Callable (SomethingAnd (VInt 60))"
      "[NInt 1, NInt 2]" py_arith two_expressions 0]
  by simp

text \<open>
  C10. An arithmetic operator applied to the placeholder makes a new arithmetic
  expression, with a new list that holds exactly one step; the placeholder keeps no
  arithmetic state: the expressions made before are what they were. No two arithmetic
  expressions share a list, so a step appended to one changes neither the steps of
  another nor the result of calling it.
\<close>

theorem placeholder_arithmetic_fresh:
  "snd (Callable_dunder h d other) = n_instances h
   \<and> n_instances (fst (Callable_dunder h d other)) = Suc (n_instances h)
   \<and> operations_attr (fst (Callable_dunder h d other)) (n_instances h) = n_lists h
   \<and> n_lists (fst (Callable_dunder h d other)) = Suc (n_lists h)
   \<and> MathExpression_operations (fst (Callable_dunder h d other))
         (snd (Callable_dunder h d other))
       = [Partial (dunder_operation d) other]
   \<and> (reachable h \<and> e < n_instances h \<longrightarrow>
        operations_attr (fst (Callable_dunder h d other)) e = operations_attr h e
        \<and> MathExpression_operations (fst (Callable_dunder h d other)) e
            = MathExpression_operations h e)
   \<and> (reachable h \<and> e1 < n_instances h \<and> e2 < n_instances h \<and> e1 \<noteq> e2 \<longrightarrow>
        operations_attr h e1 \<noteq> operations_attr h e2
        \<and> MathExpression_operations (fst (MathExpression_dunder h e1 d other)) e2
            = MathExpression_operations h e2
        \<and> MathExpression_invoke host (fst (MathExpression_dunder h e1 d other)) e2 numbers
            = MathExpression_invoke host h e2 numbers)"
proof -
  have new: "snd (Callable_dunder h d other) = n_instances h
     \<and> n_instances (fst (Callable_dunder h d other)) = Suc (n_instances h)
     \<and> operations_attr (fst (Callable_dunder h d other)) (n_instances h) = n_lists h
     \<and> n_lists (fst (Callable_dunder h d other)) = Suc (n_lists h)
     \<and> MathExpression_operations (fst (Callable_dunder h d other))
           (snd (Callable_dunder h d other))
         = [Partial (dunder_operation d) other]"
    by (simp add: heap_defs)
  have apart: "operations_attr h e1 \<noteq> operations_attr h e2
        \<and> MathExpression_operations (fst (MathExpression_dunder h e1 d other)) e2
            = MathExpression_operations h e2
        \<and> MathExpression_invoke host (fst (MathExpression_dunder h e1 d other)) e2 numbers
            = MathExpression_invoke host h e2 numbers"
    if "reachable h" "e1 < n_instances h" "e2 < n_instances h" "e1 \<noteq> e2"
  proof -
    have distinct: "operations_attr h e1 \<noteq> operations_attr h e2"
      using no_sharing that by blast
    then show ?thesis
      by (simp add: extend_frame MathExpression_invoke_def split: list.splits)
  qed
  show ?thesis
    using new start_frame [of h e d other] apart by blast
qed

theorem placeholder_arithmetic_fresh_witness:
  "reachable two_expressions
   \<and> 0 < n_instances two_expressions \<and> Suc 0 < n_instances two_expressions
   \<and> (0 :: nat) \<noteq> Suc 0
   \<and> MathExpression_operations
         (fst (Callable_dunder two_expressions dunder_mul (NInt 7))) (Suc 0)
       = MathExpression_operations two_expressions (Suc 0)
   \<and> operations_attr two_expressions 0 \<noteq> operations_attr two_expressions (Suc 0)
   \<and> MathExpression_operations
         (fst (MathExpression_dunder two_expressions 0 dunder_mul (NInt 7))) (Suc 0)
       = [Partial (Operator Sub) (NInt 3)]
   \<and> MathExpression_invoke py_arith two_expressions (Suc 0) [NInt 10] = Inr (NInt (- 7))
   \<and> MathExpression_invoke py_arith
         (fst (MathExpression_dunder two_expressions 0 dunder_mul (NInt 7))) (Suc 0) [NInt 10]
       = Inr (NInt (- 7))"
proof -
  have before: "MathExpression_invoke py_arith two_expressions (Suc 0) [NInt 10]
      = Inr (NInt (- 7))"
    by (simp add: MathExpression_invoke_def MathExpression_call_def two_expressions_facts)
  show ?thesis
    using reachable_two_expressions before
      placeholder_arithmetic_fresh [of two_expressions dunder_mul "NInt 7" "Suc 0" 0 "Suc 0"
        py_arith "[NInt 10]"]
    by (simp add: two_expressions_facts)
qed

end
